theory Spec2Isabelle
  imports Main "HOL-Library.Char_ord" "HOL-Library.List_Lexorder"
begin

section \<open>Strings\<close>

text \<open>
  A Python \<open>str\<close> is modelled as a \<open>string\<close>, one \<open>char\<close> per code point; the model
  therefore covers the code points below 256.  The functions of this section are the
  methods of \<open>str\<close>, of \<open>os.path\<close> and of \<open>re\<close> that \<open>bin/migrate-docs.py\<close> calls.
\<close>

text \<open>\<open>s.startswith(p)\<close> and \<open>s.endswith(p)\<close>.\<close>

fun starts_with :: "string \<Rightarrow> string \<Rightarrow> bool" where
  "starts_with [] s = True"
| "starts_with (p # ps) [] = False"
| "starts_with (p # ps) (c # cs) = (p = c \<and> starts_with ps cs)"

definition ends_with :: "string \<Rightarrow> string \<Rightarrow> bool" where
  "ends_with p s = starts_with (rev p) (rev s)"

text \<open>\<open>sub in s\<close> for strings: \<open>sub\<close> occurs in \<open>s\<close> as a contiguous block.\<close>

fun contains :: "string \<Rightarrow> string \<Rightarrow> bool" where
  "contains sub [] = (sub = [])"
| "contains sub (c # cs) = (starts_with sub (c # cs) \<or> contains sub cs)"

text \<open>The character classes \<open>\d\<close>, \<open>[a-z]\<close> and \<open>\s\<close> of \<open>re\<close> (the latter is also what
  \<open>str.strip()\<close> removes) on code points below 256.\<close>

definition is_digit :: "char \<Rightarrow> bool" where
  "is_digit c = (c \<in> set ''0123456789'')"

definition is_lower :: "char \<Rightarrow> bool" where
  "is_lower c = (c \<in> set ''abcdefghijklmnopqrstuvwxyz'')"

definition is_space :: "char \<Rightarrow> bool" where
  "is_space c = (let n = (of_char c :: nat)
                 in (9 \<le> n \<and> n \<le> 13) \<or> (28 \<le> n \<and> n \<le> 32) \<or> n = 133 \<or> n = 160)"

text \<open>
  \<open>re.sub(pattern, repl, s)\<close>: the text is scanned from left to right; where the pattern
  matches, the match is replaced and the scan goes on behind it, elsewhere the character
  is kept.  A pattern is given by its matcher: applied to the text that starts at the
  current position, it returns the length of the match there and what replaces it.  None
  of the patterns of this program is anchored inside the text or matches the empty
  string, so a match depends on the text from the position on only and has a positive
  length.  The first argument of \<open>re_sub_from\<close> counts the characters of the last match
  that are still to be skipped.
\<close>

type_synonym matcher = "string \<Rightarrow> (nat \<times> string) option"

fun re_sub_from :: "matcher \<Rightarrow> nat \<Rightarrow> string \<Rightarrow> string" where
  "re_sub_from m k [] = []"
| "re_sub_from m (Suc k) (c # cs) = re_sub_from m k cs"
| "re_sub_from m 0 (c # cs) =
     (case m (c # cs) of
        None \<Rightarrow> c # re_sub_from m 0 cs
      | Some (n, r) \<Rightarrow> r @ re_sub_from m (n - 1) cs)"

definition re_sub :: "matcher \<Rightarrow> string \<Rightarrow> string" where
  "re_sub m s = re_sub_from m 0 s"

text \<open>\<open>s.replace(old, new)\<close>: every occurrence of \<open>old\<close>, from left to right and without
  overlap; with an empty \<open>old\<close>, Python puts \<open>new\<close> before every character and at the end.\<close>

definition literal_match :: "string \<Rightarrow> string \<Rightarrow> matcher" where
  "literal_match old new t = (if starts_with old t then Some (length old, new) else None)"

definition str_replace :: "string \<Rightarrow> string \<Rightarrow> string \<Rightarrow> string" where
  "str_replace old new s =
     (if old = [] then new @ concat (map (\<lambda>c. c # new) s)
      else re_sub (literal_match old new) s)"

section \<open>The filename normalizer\<close>

text \<open>\<open>re.match(r"^\d{8}_", result)\<close>: eight digits and an underscore at the start.\<close>

definition has_date_prefix :: "string \<Rightarrow> bool" where
  "has_date_prefix s =
     (9 \<le> length s \<and> list_all is_digit (take 8 s) \<and> s ! 8 = CHR ''_'')"

text \<open>The pattern \<open>_\d{3}-\<close>, replaced by \<open>_\<close>.\<close>

definition seq_match :: matcher where
  "seq_match t =
     (case t of
        c0 # c1 # c2 # c3 # c4 # _ \<Rightarrow>
          if c0 = CHR ''_'' \<and> is_digit c1 \<and> is_digit c2 \<and> is_digit c3 \<and> c4 = CHR ''-''
          then Some (5, ''_'') else None
      | _ \<Rightarrow> None)"

text \<open>
  \<open>normalize_filename(filename, source_file)\<close>.  The second argument of the model is the
  date that \<open>get_git_date(source_file)\<close> returns; the source asks for it only when the name
  has no date prefix, and the model uses it only then.
\<close>

definition normalize_filename :: "string \<Rightarrow> string \<Rightarrow> string" where
  "normalize_filename filename date =
     (let result = filename;
          result = (if ends_with ''.md'' result then take (length result - 3) result
                    else result);
          result = (if \<not> has_date_prefix result then date @ ''_'' @ result else result);
          result = re_sub seq_match result;
          result = str_replace ''-'' ''_'' result
      in result @ ''.md'')"

section \<open>Paths inside references\<close>

text \<open>\<open>os.path.basename(p)\<close>: what follows the last \<open>/\<close>.\<close>

definition basename :: "string \<Rightarrow> string" where
  "basename p = rev (takeWhile (\<lambda>c. c \<noteq> CHR ''/'') (rev p))"

text \<open>
  \<open>os.path.splitext(p)[1]\<close>: the extension starts at the last dot of the last path
  component, when some character of the component before that dot is not a dot itself;
  otherwise it is empty.
\<close>

definition splitext_ext :: "string \<Rightarrow> string" where
  "splitext_ext p =
     (let name = basename p;
          tail = rev (takeWhile (\<lambda>c. c \<noteq> CHR ''.'') (rev name));
          stem = take (length name - length tail - 1) name
      in if CHR ''.'' \<in> set name \<and> list_ex (\<lambda>c. c \<noteq> CHR ''.'') stem
         then CHR ''.'' # tail else [])"

definition CODE_EXTENSIONS :: "string list" where
  "CODE_EXTENSIONS =
     [''.rs'', ''.ts'', ''.tsx'', ''.py'', ''.kt'', ''.toml'', ''.sql'', ''.md'', ''.sh'',
      ''.json'', ''.yaml'', ''.yml'']"

text \<open>
  A \<open>Path\<close> of \<open>pathlib\<close> is the list of its components below the root; all paths of
  the program are absolute.  \<open>path_str\<close> is \<open>str(p)\<close>.
\<close>

type_synonym path = "string list"

definition path_str :: "path \<Rightarrow> string" where
  "path_str p = concat (map (\<lambda>c. ''/'' @ c) p)"

definition WORKSPACE :: path where
  "WORKSPACE = [''home'', ''ubuntu'', ''workspaces'', ''flovyn'']"

text \<open>\<open>str(WORKSPACE)\<close>.\<close>

definition workspace_str :: string where
  "workspace_str = path_str WORKSPACE"

text \<open>The repository names that \<open>normalize_code_reference\<close> takes for a prefix.\<close>

definition known_repos :: "string list" where
  "known_repos =
     [''flovyn-server'', ''flovyn-app'', ''sdk-rust'', ''sdk-python'', ''sdk-kotlin'', ''dev'']"

text \<open>\<open>s.lstrip("/")\<close>.\<close>

definition lstrip_slash :: "string \<Rightarrow> string" where
  "lstrip_slash s = dropWhile (\<lambda>c. c = CHR ''/'') s"

text \<open>\<open>re.sub(r"^(\.\./)+", "", ref)\<close>: the pattern is anchored at the start, so it removes
  the leading run of \<open>../\<close> and nothing else.\<close>

fun strip_parent_segments :: "string \<Rightarrow> string" where
  "strip_parent_segments (a # b # c # rest) =
     (if a = CHR ''.'' \<and> b = CHR ''.'' \<and> c = CHR ''/''
      then strip_parent_segments rest else a # b # c # rest)"
| "strip_parent_segments s = s"

definition normalize_code_reference :: "string \<Rightarrow> string \<Rightarrow> string" where
  "normalize_code_reference ref source_repo =
     (if list_ex (\<lambda>repo. starts_with (repo @ ''/'') ref) known_repos then ref
      else if starts_with workspace_str ref
      then lstrip_slash (drop (length workspace_str) ref)
      else if starts_with ''..'' ref
      then source_repo @ ''/'' @ strip_parent_segments ref
      else if CHR ''/'' \<in> set ref \<and> \<not> starts_with ''.'' ref
              \<and> splitext_ext ref \<in> set CODE_EXTENSIONS
      then source_repo @ ''/'' @ ref
      else ref)"

text \<open>
  \<open>normalize_doc_link(link, filename_map, source_repo)\<close>; the dictionary \<open>filename_map\<close> is a
  map from the old to the new filename.
\<close>

definition normalize_doc_link :: "string \<Rightarrow> (string \<rightharpoonup> string) \<Rightarrow> string \<Rightarrow> string" where
  "normalize_doc_link link filename_map source_repo =
     (let filename = basename link
      in case filename_map filename of
           Some new_filename \<Rightarrow> str_replace filename new_filename link
         | None \<Rightarrow> link)"

text \<open>
  \<open>re.sub(r"[^/]+/\.dev/docs/", "dev/docs/", new_path)\<close>.  The class \<open>[^/]+\<close> is greedy and
  the next character of the pattern is \<open>/\<close>, so a match at a position takes the whole run
  of characters other than \<open>/\<close> that starts there.
\<close>

definition doc_root_match :: matcher where
  "doc_root_match t =
     (let seg = takeWhile (\<lambda>c. c \<noteq> CHR ''/'') t;
          rest = dropWhile (\<lambda>c. c \<noteq> CHR ''/'') t
      in if seg \<noteq> [] \<and> starts_with ''/.dev/docs/'' rest
         then Some (length seg + 11, ''dev/docs/'') else None)"

definition collapse_doc_root :: "string \<Rightarrow> string" where
  "collapse_doc_root s = re_sub doc_root_match s"

section \<open>The reference rewriter\<close>

text \<open>
  The pattern of markdown links, \<open>\[([^\]]*)\]\(([^)]+)\)\<close>.  After \<open>[\<close>, group 1 runs up to
  the first \<open>]\<close>, which \<open>(\<close> must follow; group 2 runs up to the first \<open>)\<close> and is not empty.
  \<open>md_link_groups\<close> returns the two groups of the match at the start of the text.
\<close>

definition md_link_groups :: "string \<Rightarrow> (string \<times> string) option" where
  "md_link_groups t =
     (case t of
        [] \<Rightarrow> None
      | c # r \<Rightarrow>
          if c \<noteq> CHR ''['' then None
          else let text = takeWhile (\<lambda>c. c \<noteq> CHR '']'') r;
                   r1 = dropWhile (\<lambda>c. c \<noteq> CHR '']'') r
               in if \<not> starts_with ''](''  r1 then None
                  else let r2 = drop 2 r1;
                           path = takeWhile (\<lambda>c. c \<noteq> CHR '')'') r2;
                           r3 = dropWhile (\<lambda>c. c \<noteq> CHR '')'') r2
                       in if path = [] \<or> r3 = [] then None else Some (text, path))"

text \<open>\<open>match.group(0)\<close> of a markdown link with these groups.\<close>

definition md_link_text :: "string \<Rightarrow> string \<Rightarrow> string" where
  "md_link_text text path = ''['' @ text @ '']('' @ path @ '')''"

text \<open>\<open>replace_md_link(match)\<close>, on the groups of the match.\<close>

definition replace_md_link :: "(string \<rightharpoonup> string) \<Rightarrow> string \<Rightarrow> string \<Rightarrow> string \<Rightarrow> string" where
  "replace_md_link filename_map source_repo text path =
     (if starts_with ''http://'' path \<or> starts_with ''https://'' path \<or> starts_with ''#'' path
      then md_link_text text path
      else if ends_with ''.md'' path \<or> contains ''/.dev/docs/'' path
      then (let new_path = normalize_doc_link path filename_map source_repo;
                new_path = collapse_doc_root new_path
            in ''['' @ text @ '']('' @ new_path @ '')'')
      else if splitext_ext path \<in> set CODE_EXTENSIONS
      then (let new_path = normalize_code_reference path source_repo
            in ''['' @ text @ '']('' @ new_path @ '')'')
      else md_link_text text path)"

definition md_link_match :: "(string \<rightharpoonup> string) \<Rightarrow> string \<Rightarrow> matcher" where
  "md_link_match filename_map source_repo t =
     (case md_link_groups t of
        None \<Rightarrow> None
      | Some (text, path) \<Rightarrow>
          Some (length (md_link_text text path),
                replace_md_link filename_map source_repo text path))"

text \<open>
  The pattern of inline code references, \<open>`([^`]+\.[a-z]{1,4}(?::\d+)?)`\<close>.  Nothing inside
  the group matches a backtick, so the match at a backtick ends at the next one, and the
  text between the two is group 1 when it has the shape the group asks for: an optional
  \<open>:digits\<close> at the end, before it a dot and one to four lower-case letters, and at
  least one character before that dot.
\<close>

definition code_ref_shape :: "string \<Rightarrow> bool" where
  "code_ref_shape body =
     (let digits = takeWhile is_digit (rev body);
          ahead = drop (length digits) (rev body);
          core = (if digits \<noteq> [] \<and> starts_with '':'' ahead then drop 1 ahead
                  else rev body);
          letters = takeWhile is_lower core;
          front = drop (length letters) core
      in 1 \<le> length letters \<and> length letters \<le> 4 \<and> starts_with ''.'' front
         \<and> 2 \<le> length front)"

definition code_ref_group :: "string \<Rightarrow> string option" where
  "code_ref_group t =
     (case t of
        [] \<Rightarrow> None
      | c # r \<Rightarrow>
          if c \<noteq> CHR 0x60 then None
          else let body = takeWhile (\<lambda>c. c \<noteq> CHR 0x60) r;
                   r1 = dropWhile (\<lambda>c. c \<noteq> CHR 0x60) r
               in if r1 \<noteq> [] \<and> code_ref_shape body then Some body else None)"

text \<open>\<open>ref.split(":")[0]\<close>: the text before the first colon.\<close>

definition before_colon :: "string \<Rightarrow> string" where
  "before_colon ref = takeWhile (\<lambda>c. c \<noteq> CHR '':'') ref"

text \<open>\<open>replace_code_ref(match)\<close>, on group 1 of the match.\<close>

definition replace_code_ref :: "string \<Rightarrow> string \<Rightarrow> string" where
  "replace_code_ref source_repo ref =
     (let ext = splitext_ext (before_colon ref)
      in if ext \<in> set CODE_EXTENSIONS
         then (let new_ref = normalize_code_reference ref source_repo
               in [CHR 0x60] @ new_ref @ [CHR 0x60])
         else [CHR 0x60] @ ref @ [CHR 0x60])"

definition code_ref_match :: "string \<Rightarrow> matcher" where
  "code_ref_match source_repo t =
     (case code_ref_group t of
        None \<Rightarrow> None
      | Some ref \<Rightarrow> Some (length ref + 2, replace_code_ref source_repo ref))"

text \<open>
  The pattern of metadata lines, \<open>\*\*(Design|Plan|Bug):\*\*\s*\[?([^\]\n]+)\]?\<close>.
  \<open>meta_run\<close> is the longest text that group 2 can take at a position, \<open>meta_close\<close> the
  length of the optional \<open>]\<close> behind it.  \<open>meta_group\<close> matches \<open>\[?([^\]\n]+)\]?\<close>: with the
  bracket first, without it when that fails.  \<open>meta_tail\<close> matches \<open>\s*\<close> and the rest the
  way the backtracking of \<open>re\<close> does: a blank is taken when the rest matches behind it, and
  is left to group 2 otherwise.  Both return group 2 and the length of what they matched.
\<close>

definition meta_run :: "string \<Rightarrow> string" where
  "meta_run t = takeWhile (\<lambda>c. c \<noteq> CHR '']'' \<and> c \<noteq> CHR 0x0A) t"

definition meta_close :: "string \<Rightarrow> nat" where
  "meta_close t = (if starts_with '']'' (drop (length (meta_run t)) t) then 1 else 0)"

definition meta_plain :: "string \<Rightarrow> (string \<times> nat) option" where
  "meta_plain t =
     (if meta_run t \<noteq> [] then Some (meta_run t, length (meta_run t) + meta_close t)
      else None)"

definition meta_group :: "string \<Rightarrow> (string \<times> nat) option" where
  "meta_group t =
     (if starts_with ''['' t \<and> meta_run (drop 1 t) \<noteq> []
      then Some (meta_run (drop 1 t),
                 1 + length (meta_run (drop 1 t)) + meta_close (drop 1 t))
      else meta_plain t)"

fun meta_tail :: "string \<Rightarrow> (string \<times> nat) option" where
  "meta_tail [] = None"
| "meta_tail (c # t) =
     (if is_space c
      then (case meta_tail t of
              Some (g, n) \<Rightarrow> Some (g, n + 1)
            | None \<Rightarrow> meta_group (c # t))
      else meta_group (c # t))"

text \<open>The label of a metadata line at the start of the text, with the colon and the
  asterisks around it.\<close>

definition meta_label :: "string \<Rightarrow> string option" where
  "meta_label t =
     (if starts_with ''**Design:**'' t then Some ''Design''
      else if starts_with ''**Plan:**'' t then Some ''Plan''
      else if starts_with ''**Bug:**'' t then Some ''Bug''
      else None)"

text \<open>\<open>s.strip()\<close>.\<close>

definition strip :: "string \<Rightarrow> string" where
  "strip s = rev (dropWhile is_space (rev (dropWhile is_space s)))"

text \<open>\<open>replace_meta(match)\<close>, on the two groups and on \<open>match.group(0)\<close>.\<close>

definition replace_meta ::
  "(string \<rightharpoonup> string) \<Rightarrow> string \<Rightarrow> string \<Rightarrow> string \<Rightarrow> string \<Rightarrow> string" where
  "replace_meta filename_map source_repo label group2 whole =
     (let path = strip group2
      in if ends_with ''.md'' path
         then (let new_path = normalize_doc_link path filename_map source_repo;
                   new_path = collapse_doc_root new_path
               in ''**'' @ label @ '':** '' @ new_path)
         else whole)"

definition meta_match :: "(string \<rightharpoonup> string) \<Rightarrow> string \<Rightarrow> matcher" where
  "meta_match filename_map source_repo t =
     (case meta_label t of
        None \<Rightarrow> None
      | Some label \<Rightarrow>
          (let head = length label + 5
           in case meta_tail (drop head t) of
                None \<Rightarrow> None
              | Some (group2, n) \<Rightarrow>
                  Some (head + n,
                        replace_meta filename_map source_repo label group2
                          (take (head + n) t))))"

text \<open>\<open>normalize_links_in_content(content, filename_map, source_repo)\<close>: the three passes,
  one after the other; the list of warnings stays empty.\<close>

definition normalize_links_in_content ::
  "string \<Rightarrow> (string \<rightharpoonup> string) \<Rightarrow> string \<Rightarrow> string \<times> string list" where
  "normalize_links_in_content content filename_map source_repo =
     (let warnings = [];
          new_content = content;
          new_content = re_sub (md_link_match filename_map source_repo) new_content;
          new_content = re_sub (code_ref_match source_repo) new_content;
          new_content = re_sub (meta_match filename_map source_repo) new_content
      in (new_content, warnings))"

section \<open>The file system, git and the console\<close>

text \<open>
  What the program asks of its environment is a parameter of the model: a state \<open>'fs\<close>
  of the file system and the operations on it that the program calls.  Reading does not
  change the state; \<open>mkdir\<close> and \<open>write_text\<close> return the new state, and the exception
  when they raise one.  The two \<open>git log\<close> commands of \<open>get_git_date\<close> and the \<open>date\<close>
  command give their standard output, or the exception that \<open>subprocess.run\<close> raises.
  The fields are \<open>p.exists()\<close>, \<open>list(p.rglob("*.md"))\<close>, \<open>p.read_text()\<close>,
  \<open>p.mkdir(parents=True, exist_ok=True)\<close>, \<open>p.write_text(text)\<close> (also for the mapping
  file, which the source opens, writes and closes), the output of \<open>git log\<close> with
  \<open>--diff-filter=A\<close> and with \<open>-1\<close>, \<open>date.today().strftime("%Y%m%d")\<close> and the output
  of \<open>date\<close>.
\<close>

datatype error = IndexError | ValueError | OSError

record 'fs os_iface =
  os_exists :: "'fs \<Rightarrow> path \<Rightarrow> bool"
  os_rglob_md :: "'fs \<Rightarrow> path \<Rightarrow> path list"
  os_read_text :: "'fs \<Rightarrow> path \<Rightarrow> error + string"
  os_mkdir :: "path \<Rightarrow> 'fs \<Rightarrow> error option \<times> 'fs"
  os_write_text :: "path \<Rightarrow> string \<Rightarrow> 'fs \<Rightarrow> error option \<times> 'fs"
  os_git_added :: "'fs \<Rightarrow> path \<Rightarrow> error + string"
  os_git_last :: "'fs \<Rightarrow> path \<Rightarrow> error + string"
  os_today :: "'fs \<Rightarrow> string"
  os_date :: "'fs \<Rightarrow> error + string"

definition TARGET_DIR :: path where
  "TARGET_DIR = WORKSPACE @ [''dev'', ''docs'']"

definition MAPPING_FILE :: path where
  "MAPPING_FILE = TARGET_DIR @ [''migration-map.txt'']"

definition SOURCES :: "(path \<times> string) list" where
  "SOURCES =
     [(WORKSPACE @ [''flovyn-server'', ''.dev'', ''docs''], ''flovyn-server''),
      (WORKSPACE @ [''flovyn-app'', ''.dev'', ''docs''], ''flovyn-app''),
      (WORKSPACE @ [''sdk-rust'', ''.dev'', ''docs''], ''sdk-rust''),
      (WORKSPACE @ [''sdk-kotlin'', ''.dev'', ''docs''], ''sdk-kotlin'')]"

definition TARGET_DIRS :: "string list" where
  "TARGET_DIRS =
     [''design'', ''plans'', ''research'', ''bugs'', ''guides'', ''architecture'', ''archive'']"

record FileMapping =
  old_path :: path
  new_path :: path
  old_filename :: string
  new_filename :: string
  source_repo :: string

text \<open>\<open>s.split(c)\<close> for a separator of one character; the result is never empty.\<close>

fun split_on :: "char \<Rightarrow> string \<Rightarrow> string list" where
  "split_on c [] = [[]]"
| "split_on c (x # xs) =
     (if x = c then [] # split_on c xs
      else (case split_on c xs of
              [] \<Rightarrow> [[x]]
            | w # ws \<Rightarrow> (x # w) # ws))"

text \<open>\<open>get_git_date(file_path)\<close>: an exception of either command leads to the date of
  today, as does empty output of both.\<close>

definition get_git_date :: "'fs os_iface \<Rightarrow> 'fs \<Rightarrow> path \<Rightarrow> string" where
  "get_git_date os fs file_path =
     (case os_git_added os fs file_path of
        Inl e \<Rightarrow> os_today os fs
      | Inr out1 \<Rightarrow>
          (let dates = split_on (CHR 0x0A) (strip out1)
           in if dates \<noteq> [] \<and> last dates \<noteq> [] then str_replace ''-'' [] (last dates)
              else (case os_git_last os fs file_path of
                      Inl e \<Rightarrow> os_today os fs
                    | Inr out2 \<Rightarrow>
                        if strip out2 \<noteq> [] then str_replace ''-'' [] (strip out2)
                        else os_today os fs)))"

section \<open>The path mapper\<close>

text \<open>\<open>p.relative_to(base)\<close> and \<open>p.name\<close>.\<close>

definition relative_to :: "path \<Rightarrow> path \<Rightarrow> error + path" where
  "relative_to p base =
     (if take (length base) p = base then Inr (drop (length base) p) else Inl ValueError)"

definition path_name :: "path \<Rightarrow> string" where
  "path_name p = (if p = [] then [] else last p)"

type_synonym table = "string \<rightharpoonup> string"

text \<open>
  The body of the inner loop of \<open>build_filename_mapping\<close>, for one source file: it returns
  the list of mappings and the dictionary after the file.  A filename is one component of
  the destination path.
\<close>

definition map_one ::
  "'fs os_iface \<Rightarrow> 'fs \<Rightarrow> path \<Rightarrow> string \<Rightarrow> path \<Rightarrow> FileMapping list \<times> table
     \<Rightarrow> error + FileMapping list \<times> table" where
  "map_one os fs source_dir repo source_file acc =
     (case relative_to source_file source_dir of
        Inl e \<Rightarrow> Inl e
      | Inr parts \<Rightarrow>
          (case parts of
             [] \<Rightarrow> Inl IndexError
           | dir_type # _ \<Rightarrow>
               (let mappings = fst acc;
                    filename_map = snd acc;
                    old_name = path_name source_file;
                    new_name = normalize_filename old_name (get_git_date os fs source_file);
                    target_path = (if length parts > 2
                                   then TARGET_DIR @ [dir_type, parts ! 1, new_name]
                                   else TARGET_DIR @ [dir_type, new_name]);
                    conflict = (os_exists os fs target_path
                                \<or> list_ex (\<lambda>m. new_path m = target_path) mappings);
                    new_name = (if conflict
                                then take (length new_name - 3) new_name @ ''_'' @ repo @ ''.md''
                                else new_name);
                    target_path = (if conflict
                                   then (if length parts > 2
                                         then TARGET_DIR @ [dir_type, parts ! 1, new_name]
                                         else TARGET_DIR @ [dir_type, new_name])
                                   else target_path);
                    mapping = \<lparr>old_path = source_file, new_path = target_path,
                               old_filename = old_name, new_filename = new_name,
                               source_repo = repo\<rparr>
                in Inr (mappings @ [mapping], filename_map(old_name \<mapsto> new_name)))))"

fun map_files ::
  "'fs os_iface \<Rightarrow> 'fs \<Rightarrow> path \<Rightarrow> string \<Rightarrow> path list \<Rightarrow> FileMapping list \<times> table
     \<Rightarrow> error + FileMapping list \<times> table" where
  "map_files os fs source_dir repo [] acc = Inr acc"
| "map_files os fs source_dir repo (f # files) acc =
     (case map_one os fs source_dir repo f acc of
        Inl e \<Rightarrow> Inl e
      | Inr acc' \<Rightarrow> map_files os fs source_dir repo files acc')"

text \<open>The outer loop: a source directory that does not exist is skipped; the files of the
  others are taken in the order of \<open>sorted\<close>.\<close>

fun map_sources ::
  "'fs os_iface \<Rightarrow> 'fs \<Rightarrow> (path \<times> string) list \<Rightarrow> FileMapping list \<times> table
     \<Rightarrow> error + FileMapping list \<times> table" where
  "map_sources os fs [] acc = Inr acc"
| "map_sources os fs ((source_dir, repo) # rest) acc =
     (if \<not> os_exists os fs source_dir then map_sources os fs rest acc
      else (case map_files os fs source_dir repo (sort (os_rglob_md os fs source_dir)) acc of
              Inl e \<Rightarrow> Inl e
            | Inr acc' \<Rightarrow> map_sources os fs rest acc'))"

definition build_filename_mapping ::
  "'fs os_iface \<Rightarrow> 'fs \<Rightarrow> bool \<Rightarrow> error + FileMapping list \<times> table" where
  "build_filename_mapping os fs dry_run = map_sources os fs SOURCES ([], Map.empty)"

section \<open>Migration and the main program\<close>

text \<open>\<open>migrate_file(mapping, filename_map, dry_run)\<close>: the warnings, or the exception, and
  the file system afterwards.\<close>

definition migrate_file ::
  "'fs os_iface \<Rightarrow> FileMapping \<Rightarrow> table \<Rightarrow> bool \<Rightarrow> 'fs \<Rightarrow> (error + string list) \<times> 'fs" where
  "migrate_file os mapping filename_map dry_run fs =
     (case os_read_text os fs (old_path mapping) of
        Inl e \<Rightarrow> (Inl e, fs)
      | Inr content \<Rightarrow>
          (let res = normalize_links_in_content content filename_map (source_repo mapping);
               new_content = fst res;
               warnings = [] @ snd res
           in if \<not> dry_run
              then (case os_mkdir os (butlast (new_path mapping)) fs of
                      (Some e, fs1) \<Rightarrow> (Inl e, fs1)
                    | (None, fs1) \<Rightarrow>
                        (case os_write_text os (new_path mapping) new_content fs1 of
                           (Some e, fs2) \<Rightarrow> (Inl e, fs2)
                         | (None, fs2) \<Rightarrow> (Inr warnings, fs2)))
              else (Inr warnings, fs)))"

text \<open>
  \<open>write_mapping_file(mappings, dry_run)\<close>.  The file is opened before the \<open>date\<close> command
  runs, so an exception of that command leaves the first line of the header behind.
\<close>

definition mapping_line :: "FileMapping \<Rightarrow> string" where
  "mapping_line m = path_str (old_path m) @ '' -> '' @ path_str (new_path m) @ [CHR 0x0A]"

definition write_mapping_file ::
  "'fs os_iface \<Rightarrow> FileMapping list \<Rightarrow> bool \<Rightarrow> 'fs \<Rightarrow> error option \<times> 'fs" where
  "write_mapping_file os mappings dry_run fs =
     (if dry_run then (None, fs)
      else (case os_date os fs of
              Inl e \<Rightarrow>
                (case os_write_text os MAPPING_FILE (''# Doc Migration Mapping'' @ [CHR 0x0A]) fs of
                   (Some e', fs') \<Rightarrow> (Some e', fs')
                 | (None, fs') \<Rightarrow> (Some e, fs'))
            | Inr out \<Rightarrow>
                os_write_text os MAPPING_FILE
                  (''# Doc Migration Mapping'' @ [CHR 0x0A]
                   @ ''# Generated: '' @ strip out @ [CHR 0x0A]
                   @ ''# Format: old_path -> new_path'' @ [CHR 0x0A, CHR 0x0A]
                   @ concat (map mapping_line mappings)) fs))"

text \<open>\<open>str(n)\<close> for a natural number.\<close>

fun show_nat :: "nat \<Rightarrow> string" where
  "show_nat n =
     (if n < 10 then [''0123456789'' ! n]
      else show_nat (n div 10) @ [''0123456789'' ! (n mod 10)])"

text \<open>
  The console is the list of the strings printed, one for each call of \<open>print\<close>.  A run
  ends with the exception that stopped it, if any, the file system and the console.
\<close>

type_synonym 'fs run = "error option \<times> 'fs \<times> string list"

text \<open>The loop of \<open>main\<close> over \<open>TARGET_DIRS\<close>.\<close>

fun create_target_dirs ::
  "'fs os_iface \<Rightarrow> bool \<Rightarrow> string list \<Rightarrow> 'fs \<Rightarrow> string list \<Rightarrow> 'fs run" where
  "create_target_dirs os dry_run [] fs out = (None, fs, out)"
| "create_target_dirs os dry_run (dir_name # rest) fs out =
     (let target = TARGET_DIR @ [dir_name];
          out = out @ [''  '' @ path_str target]
      in if \<not> dry_run
         then (case os_mkdir os target fs of
                 (Some e, fs') \<Rightarrow> (Some e, fs', out)
               | (None, fs') \<Rightarrow> create_target_dirs os dry_run rest fs' out)
         else create_target_dirs os dry_run rest fs out)"

text \<open>The loop of \<open>main\<close> over the mappings; the last argument is \<open>all_warnings\<close>.\<close>

fun migrate_all ::
  "'fs os_iface \<Rightarrow> bool \<Rightarrow> table \<Rightarrow> FileMapping list \<Rightarrow> 'fs \<Rightarrow> string list \<Rightarrow> string list
     \<Rightarrow> (error + string list) \<times> 'fs \<times> string list" where
  "migrate_all os dry_run filename_map [] fs out all_warnings = (Inr all_warnings, fs, out)"
| "migrate_all os dry_run filename_map (mapping # rest) fs out all_warnings =
     (let out = out @ [''  '' @ path_str (old_path mapping),
                       ''    -> '' @ path_str (new_path mapping)]
      in case migrate_file os mapping filename_map dry_run fs of
           (Inl e, fs') \<Rightarrow> (Inl e, fs', out)
         | (Inr warnings, fs') \<Rightarrow>
             migrate_all os dry_run filename_map rest fs' out (all_warnings @ warnings))"

text \<open>The summary at the end of \<open>main\<close>.\<close>

definition summary :: "'fs os_iface \<Rightarrow> bool \<Rightarrow> 'fs \<Rightarrow> string list \<Rightarrow> string list" where
  "summary os dry_run fs all_warnings =
     [[CHR 0x0A] @ ''=== Summary ==='']
     @ (if dry_run
        then [''Dry run complete. No files were modified.'',
              ''Run without --dry-run to execute migration.'']
        else [''Migrated files: '' @ show_nat (length (os_rglob_md os fs TARGET_DIR)),
              ''Mapping file: '' @ path_str MAPPING_FILE])
     @ (if all_warnings \<noteq> []
        then ([CHR 0x0A] @ ''Warnings ('' @ show_nat (length all_warnings) @ ''):'')
             # map (\<lambda>w. ''  - '' @ w) all_warnings
        else [])"

text \<open>\<open>main()\<close>; the flag says whether \<open>--dry-run\<close> is among the arguments.\<close>

definition main :: "'fs os_iface \<Rightarrow> bool \<Rightarrow> 'fs \<Rightarrow> 'fs run" where
  "main os dry_run fs0 =
     (let out = (if dry_run then [''=== DRY RUN MODE ==='' @ [CHR 0x0A]] else [])
                @ [''=== Doc Migration Script ==='' @ [CHR 0x0A],
                   ''Creating target directories...'']
      in case create_target_dirs os dry_run TARGET_DIRS fs0 out of
           (Some e, fs, out) \<Rightarrow> (Some e, fs, out)
         | (None, fs, out) \<Rightarrow>
             (let out = out @ [[], ''Building file mapping...'']
              in case build_filename_mapping os fs dry_run of
                   Inl e \<Rightarrow> (Some e, fs, out)
                 | Inr (mappings, filename_map) \<Rightarrow>
                     (let out = out @ [''  Found '' @ show_nat (length mappings)
                                       @ '' files to migrate'' @ [CHR 0x0A]]
                      in case migrate_all os dry_run filename_map mappings fs out [] of
                           (Inl e, fs, out) \<Rightarrow> (Some e, fs, out)
                         | (Inr all_warnings, fs, out) \<Rightarrow>
                             (case write_mapping_file os mappings dry_run fs of
                                (Some e, fs) \<Rightarrow> (Some e, fs, out)
                              | (None, fs) \<Rightarrow>
                                  (None, fs, out @ summary os dry_run fs all_warnings)))))"

section \<open>A file system in memory\<close>

text \<open>
  To run the program on concrete inputs, the environment is instantiated with a small
  file system in memory: the directories, the files with their text (the last write
  first), and for each file the output of \<open>git log\<close> for it.  \<open>mkdir\<close> creates the missing
  parents and fails when a file is in the way; \<open>write_text\<close> needs the parent directory.
\<close>

record mem_fs =
  mem_dirs :: "path list"
  mem_files :: "(path \<times> string) list"
  mem_git :: "(path \<times> string) list"

definition mem_is_file :: "mem_fs \<Rightarrow> path \<Rightarrow> bool" where
  "mem_is_file fs p = (p \<in> set (map fst (mem_files fs)))"

definition mem_exists :: "mem_fs \<Rightarrow> path \<Rightarrow> bool" where
  "mem_exists fs p = (p \<in> set (mem_dirs fs) \<or> mem_is_file fs p)"

definition mem_rglob_md :: "mem_fs \<Rightarrow> path \<Rightarrow> path list" where
  "mem_rglob_md fs d =
     filter (\<lambda>p. length d < length p \<and> take (length d) p = d \<and> ends_with ''.md'' (path_name p))
       (remdups (map fst (mem_files fs) @ mem_dirs fs))"

definition mem_read_text :: "mem_fs \<Rightarrow> path \<Rightarrow> error + string" where
  "mem_read_text fs p =
     (case map_of (mem_files fs) p of None \<Rightarrow> Inl OSError | Some text \<Rightarrow> Inr text)"

text \<open>The path and its parents, the longest last.\<close>

definition ancestors :: "path \<Rightarrow> path list" where
  "ancestors p = map (\<lambda>n. take n p) [1 ..< Suc (length p)]"

definition mem_mkdir :: "path \<Rightarrow> mem_fs \<Rightarrow> error option \<times> mem_fs" where
  "mem_mkdir p fs =
     (if list_ex (mem_is_file fs) (ancestors p) then (Some OSError, fs)
      else (None, fs\<lparr>mem_dirs := mem_dirs fs
                       @ filter (\<lambda>q. q \<notin> set (mem_dirs fs)) (ancestors p)\<rparr>))"

definition mem_write_text :: "path \<Rightarrow> string \<Rightarrow> mem_fs \<Rightarrow> error option \<times> mem_fs" where
  "mem_write_text p text fs =
     (if butlast p \<in> set (mem_dirs fs) \<and> p \<notin> set (mem_dirs fs)
      then (None, fs\<lparr>mem_files := (p, text) # mem_files fs\<rparr>)
      else (Some OSError, fs))"

definition mem_git_log :: "mem_fs \<Rightarrow> path \<Rightarrow> error + string" where
  "mem_git_log fs p = (case map_of (mem_git fs) p of None \<Rightarrow> Inr [] | Some out \<Rightarrow> Inr out)"

definition mem_os :: "mem_fs os_iface" where
  "mem_os =
     \<lparr>os_exists = mem_exists, os_rglob_md = mem_rglob_md, os_read_text = mem_read_text,
      os_mkdir = mem_mkdir, os_write_text = mem_write_text,
      os_git_added = mem_git_log, os_git_last = mem_git_log,
      os_today = (\<lambda>fs. ''20261104''),
      os_date = (\<lambda>fs. Inr (''Wed Nov  4 12:00:00 UTC 2026'' @ [CHR 0x0A]))\<rparr>"

text \<open>The documentation directory of a repository, and a file system that holds the given
  files under existing directories, with the same text in each.\<close>

definition docs_of :: "string \<Rightarrow> path" where
  "docs_of repo = WORKSPACE @ [repo, ''.dev'', ''docs'']"

definition fs_with :: "path list \<Rightarrow> (path \<times> string) list \<Rightarrow> mem_fs" where
  "fs_with files git =
     \<lparr>mem_dirs = remdups (concat (map (\<lambda>p. ancestors (butlast p)) files)),
      mem_files = map (\<lambda>p. (p, ''text'')) files,
      mem_git = git\<rparr>"

text \<open>The parts of the result of \<open>build_filename_mapping\<close>: the mappings, and the entry of
  the dictionary for a filename.\<close>

definition mappings_of :: "error + FileMapping list \<times> table \<Rightarrow> FileMapping list" where
  "mappings_of r = (case r of Inl e \<Rightarrow> [] | Inr (mappings, filename_map) \<Rightarrow> mappings)"


text \<open>The file system and the console of a run.\<close>

definition run_fs :: "'fs run \<Rightarrow> 'fs" where
  "run_fs r = fst (snd r)"

definition run_console :: "'fs run \<Rightarrow> string list" where
  "run_console r = snd (snd r)"

text \<open>Two repositories with a file of the same name in the same category.\<close>

definition fs_two_repos :: mem_fs where
  "fs_two_repos =
     fs_with [docs_of ''flovyn-server'' @ [''design'', ''20240101_api.md''],
              docs_of ''flovyn-app'' @ [''design'', ''20240101_api.md'']] []"

text \<open>One repository with three bug reports that differ in their sequence number only.\<close>

definition fs_three_logins :: mem_fs where
  "fs_three_logins =
     fs_with [docs_of ''flovyn-server'' @ [''bugs'', ''001-login.md''],
              docs_of ''flovyn-server'' @ [''bugs'', ''002-login.md''],
              docs_of ''flovyn-server'' @ [''bugs'', ''003-login.md'']] []"


text \<open>The dictionary of the example of a rewritten link.\<close>

definition foo_table :: table where
  "foo_table = [''001-foo.md'' \<mapsto> ''20240102_foo.md'']"

section \<open>Properties of the filename normalizer\<close>

lemma starts_with_append: "starts_with p (p @ s)"
  by (induction p) simp_all

lemma ends_with_append: "ends_with p (s @ p)"
  by (simp add: ends_with_def starts_with_append)


lemma hyphen_literal_match:
  "literal_match ''-'' r t = (if t \<noteq> [] \<and> hd t = CHR ''-'' then Some (1, r) else None)"
  by (cases t) (auto simp: literal_match_def)

lemma replace_hyphen_from:
  "re_sub_from (literal_match ''-'' r) 0 s = concat (map (\<lambda>c. if c = CHR ''-'' then r else [c]) s)"
  by (induction s) (simp_all add: hyphen_literal_match)

lemma str_replace_hyphen:
  "str_replace ''-'' r s = concat (map (\<lambda>c. if c = CHR ''-'' then r else [c]) s)"
  by (simp add: str_replace_def re_sub_def replace_hyphen_from)

lemma str_replace_hyphen_free:
  "CHR ''-'' \<notin> set r \<Longrightarrow> CHR ''-'' \<notin> set (str_replace ''-'' r s)"
  by (induction s) (auto simp: str_replace_hyphen)

lemma str_replace_hyphen_id:
  "CHR ''-'' \<notin> set s \<Longrightarrow> str_replace ''-'' r s = s"
  by (induction s) (auto simp: str_replace_hyphen)

lemma seq_match_needs_hyphen: "CHR ''-'' \<notin> set t \<Longrightarrow> seq_match t = None"
  by (auto simp: seq_match_def split: list.splits)

lemma re_sub_seq_id: "CHR ''-'' \<notin> set s \<Longrightarrow> re_sub seq_match s = s"
  unfolding re_sub_def
  by (induction s) (simp_all add: seq_match_needs_hyphen)

lemma is_digit_not_hyphen: "is_digit c \<Longrightarrow> c \<noteq> CHR ''-''"
  by (auto simp: is_digit_def)

lemma has_date_prefix_append:
  "length d = 8 \<Longrightarrow> list_all is_digit d \<Longrightarrow> has_date_prefix (d @ ''_'' @ x)"
  by (simp add: has_date_prefix_def nth_append)

text \<open>
  C6: the filename \<open>001-bug-report.md\<close> with the date \<open>20240315\<close> is normalized to
  \<open>20240315_bug_report.md\<close>: the name without its extension has no date prefix, so the
  date is put before it; the sequence number \<open>_001-\<close> becomes a single underscore; the
  hyphen that is left becomes an underscore; the extension is put back.
\<close>

theorem normalize_filename_bug_report:
  "normalize_filename ''001-bug-report.md'' ''20240315'' = ''20240315_bug_report.md''
   \<and> \<not> has_date_prefix ''001-bug-report''
   \<and> re_sub seq_match ''20240315_001-bug-report'' = ''20240315_bug-report''
   \<and> str_replace ''-'' ''_'' ''20240315_bug-report'' = ''20240315_bug_report''"
  by code_simp

text \<open>
  C7: normalization is idempotent on normalized names.  A filename that consists of eight
  digits, an underscore, any text without a hyphen (so without a sequence number
  \<open>_NNN-\<close> either) and the extension \<open>.md\<close> is returned as it is, whatever the date.
\<close>

theorem normalize_filename_idempotent:
  assumes "length d = 8" and "list_all is_digit d" and "CHR ''-'' \<notin> set x"
  shows "normalize_filename (d @ ''_'' @ x @ ''.md'') date = d @ ''_'' @ x @ ''.md''"
proof -
  let ?f = "d @ ''_'' @ x @ ''.md''"
  have e: "ends_with ''.md'' ?f"
    using ends_with_append [of "''.md''" "d @ ''_'' @ x"] by simp
  have t: "take (length ?f - 3) ?f = d @ ''_'' @ x" by simp
  have p: "has_date_prefix (d @ ''_'' @ x)"
    using assms by (rule_tac has_date_prefix_append)
  have "CHR ''-'' \<notin> set d"
    using assms(2) is_digit_not_hyphen by (auto simp: list_all_iff)
  then have h: "CHR ''-'' \<notin> set (d @ ''_'' @ x)" using assms(3) by simp
  have r: "re_sub seq_match (d @ ''_'' @ x) = d @ ''_'' @ x"
    using h by (rule re_sub_seq_id)
  have s: "str_replace ''-'' ''_'' (d @ ''_'' @ x) = d @ ''_'' @ x"
    using h by (rule str_replace_hyphen_id)
  show ?thesis
    unfolding normalize_filename_def Let_def
    by (simp only: e t p r s if_True if_False not_True_eq_False) simp
qed

text \<open>The theorem at the name \<open>20240101_design_notes.md\<close>.\<close>

theorem normalize_filename_idempotent_witness:
  "normalize_filename ''20240101_design_notes.md'' ''19990101'' = ''20240101_design_notes.md''"
  using normalize_filename_idempotent [of "''20240101''" "''design_notes''" "''19990101''"]
  by (simp add: is_digit_def)

text \<open>
  C10: for every input string, with or without the extension \<open>.md\<close>, and every date, the
  result of \<open>normalize_filename\<close> ends in \<open>.md\<close> and holds no hyphen; the name \<open>notes\<close>,
  which has no extension, gives the date, \<open>_notes\<close> and \<open>.md\<close> when the date holds no
  hyphen, as every date of \<open>get_git_date\<close> does.
\<close>

theorem normalize_filename_total:
  "ends_with ''.md'' (normalize_filename filename date)
   \<and> CHR ''-'' \<notin> set (normalize_filename filename date)
   \<and> (CHR ''-'' \<notin> set date \<longrightarrow> normalize_filename ''notes'' date = date @ ''_notes.md'')"
proof (intro conjI impI)
  show "ends_with ''.md'' (normalize_filename filename date)"
    by (simp add: normalize_filename_def Let_def ends_with_append)
  show "CHR ''-'' \<notin> set (normalize_filename filename date)"
    by (simp add: normalize_filename_def Let_def str_replace_hyphen_free)
next
  assume d: "CHR ''-'' \<notin> set date"
  have e: "\<not> ends_with ''.md'' ''notes''" by code_simp
  have p: "\<not> has_date_prefix ''notes''" by (simp add: has_date_prefix_def)
  have h: "CHR ''-'' \<notin> set (date @ ''_notes'')" using d by simp
  show "normalize_filename ''notes'' date = date @ ''_notes.md''"
    unfolding normalize_filename_def Let_def
    using e p h by (simp add: re_sub_seq_id str_replace_hyphen_id)
qed

text \<open>The theorem at the name \<open>notes\<close> and the date \<open>20240315\<close>.\<close>

theorem normalize_filename_total_witness:
  "ends_with ''.md'' (normalize_filename ''notes'' ''20240315'')
   \<and> CHR ''-'' \<notin> set (normalize_filename ''notes'' ''20240315'')
   \<and> normalize_filename ''notes'' ''20240315'' = ''20240315_notes.md''"
proof -
  have h: "CHR ''-'' \<notin> set ''20240315''" by simp
  have a: "''20240315_notes.md'' = ''20240315'' @ ''_notes.md''" by simp
  show ?thesis
    unfolding a using normalize_filename_total [of "''notes''" "''20240315''"] h by blast
qed

section \<open>Properties of the path mapper\<close>










text \<open>
  C2 fails on the code: three files of one repository that normalize to the same name in
  the same category.  The second gets the repository suffix, and so does the third, which
  is not checked again: two mappings have the same destination.
\<close>

theorem three_logins_same_destination:
  "map path_str (map new_path (mappings_of (build_filename_mapping mem_os fs_three_logins False)))
     = [''/home/ubuntu/workspaces/flovyn/dev/docs/bugs/20261104_login.md'',
        ''/home/ubuntu/workspaces/flovyn/dev/docs/bugs/20261104_login_flovyn-server.md'',
        ''/home/ubuntu/workspaces/flovyn/dev/docs/bugs/20261104_login_flovyn-server.md'']
   \<and> \<not> distinct (map new_path (mappings_of (build_filename_mapping mem_os fs_three_logins False)))"
  by code_simp

section \<open>Properties of a dry run\<close>

lemma create_target_dirs_dry:
  "create_target_dirs os True dirs fs out =
     (None, fs, out @ map (\<lambda>d. ''  '' @ path_str (TARGET_DIR @ [d])) dirs)"
  by (induction dirs arbitrary: out) (simp_all add: Let_def)

lemma create_target_dirs_console:
  "\<exists>rest. snd (snd (create_target_dirs os dry_run dirs fs out)) = out @ rest"
proof (induction dirs arbitrary: fs out)
  case Nil
  then show ?case by simp
next
  case (Cons d dirs)
  let ?out = "out @ [''  '' @ path_str (TARGET_DIR @ [d])]"
  show ?case
  proof (cases "dry_run")
    case True
    from Cons [of fs ?out] obtain rest where
      "snd (snd (create_target_dirs os dry_run dirs fs ?out)) = ?out @ rest" by blast
    with True show ?thesis by (simp add: Let_def)
  next
    case False
    obtain e fs' where m: "os_mkdir os (TARGET_DIR @ [d]) fs = (e, fs')"
      by (cases "os_mkdir os (TARGET_DIR @ [d]) fs")
    show ?thesis
    proof (cases e)
      case None
      from Cons [of fs' ?out] obtain rest where
        "snd (snd (create_target_dirs os dry_run dirs fs' ?out)) = ?out @ rest" by blast
      with False m None show ?thesis by (simp add: Let_def)
    next
      case (Some a)
      with False m show ?thesis by (simp add: Let_def)
    qed
  qed
qed

lemma migrate_file_dry: "snd (migrate_file os mapping filename_map True fs) = fs"
  by (simp add: migrate_file_def Let_def split: sum.splits)

lemma migrate_all_dry:
  "fst (snd (migrate_all os True filename_map mappings fs out ws)) = fs"
proof (induction mappings arbitrary: out ws)
  case Nil
  then show ?case by simp
next
  case (Cons m mappings)
  obtain r fs' where f: "migrate_file os m filename_map True fs = (r, fs')"
    by (cases "migrate_file os m filename_map True fs")
  with migrate_file_dry [of os m filename_map fs] have "fs' = fs" by simp
  with f Cons show ?case by (cases r) (simp_all add: Let_def)
qed

lemma write_mapping_file_dry: "write_mapping_file os mappings True fs = (None, fs)"
  by (simp add: write_mapping_file_def)

lemma main_dry_fs: "run_fs (main os True fs) = fs"
proof -
  let ?out = "[''=== DRY RUN MODE ==='' @ [CHR 0x0A], ''=== Doc Migration Script ==='' @ [CHR 0x0A],
               ''Creating target directories...'']
              @ map (\<lambda>d. ''  '' @ path_str (TARGET_DIR @ [d])) TARGET_DIRS
              @ [[], ''Building file mapping...'']"
  show ?thesis
  proof (cases "build_filename_mapping os fs True")
    case (Inl e)
    then show ?thesis
      by (simp add: main_def run_fs_def create_target_dirs_dry Let_def)
  next
    case (Inr p)
    obtain mappings filename_map where p: "p = (mappings, filename_map)" by (cases p)
    let ?out2 = "?out @ [''  Found '' @ show_nat (length mappings) @ '' files to migrate'' @ [CHR 0x0A]]"
    obtain r fs' out' where
      m: "migrate_all os True filename_map mappings fs ?out2 [] = (r, fs', out')"
      by (cases "migrate_all os True filename_map mappings fs ?out2 []")
    from migrate_all_dry [of os filename_map mappings fs ?out2 "[]"] m
    have "fs' = fs" by simp
    with Inr p m show ?thesis
      by (cases r)
        (simp_all add: main_def run_fs_def create_target_dirs_dry Let_def write_mapping_file_dry)
  qed
qed

lemma migrate_all_console:
  "\<exists>rest. snd (snd (migrate_all os dry_run filename_map mappings fs out ws)) = out @ rest"
proof (induction mappings arbitrary: fs out ws)
  case Nil
  then show ?case by simp
next
  case (Cons m mappings)
  let ?out = "out @ [''  '' @ path_str (old_path m), ''    -> '' @ path_str (new_path m)]"
  obtain r fs' where f: "migrate_file os m filename_map dry_run fs = (r, fs')"
    by (cases "migrate_file os m filename_map dry_run fs")
  show ?case
  proof (cases r)
    case (Inl e)
    with f show ?thesis by (simp add: Let_def)
  next
    case (Inr w)
    from Cons [of fs' ?out "ws @ w"] obtain rest where
      "snd (snd (migrate_all os dry_run filename_map mappings fs' ?out (ws @ w))) = ?out @ rest"
      by blast
    with f Inr show ?thesis by (simp add: Let_def)
  qed
qed

lemma main_console_start:
  "\<exists>rest. run_console (main os dry_run fs) =
     (if dry_run then [''=== DRY RUN MODE ==='' @ [CHR 0x0A]] else [])
     @ [''=== Doc Migration Script ==='' @ [CHR 0x0A], ''Creating target directories...''] @ rest"
proof -
  let ?out0 = "(if dry_run then [''=== DRY RUN MODE ==='' @ [CHR 0x0A]] else [])
     @ [''=== Doc Migration Script ==='' @ [CHR 0x0A], ''Creating target directories...'']"
  obtain e1 fs1 out1 where c: "create_target_dirs os dry_run TARGET_DIRS fs ?out0 = (e1, fs1, out1)"
    by (cases "create_target_dirs os dry_run TARGET_DIRS fs ?out0")
  from create_target_dirs_console [of os dry_run TARGET_DIRS fs ?out0]
  obtain r1 where "snd (snd (create_target_dirs os dry_run TARGET_DIRS fs ?out0)) = ?out0 @ r1"
    by blast
  then have o1: "out1 = ?out0 @ r1" by (simp only: c snd_conv)
  show ?thesis
  proof (cases e1)
    case (Some e)
    with c o1 show ?thesis by (simp add: main_def run_console_def Let_def)
  next
    case None
    note n1 = None
    let ?out2 = "out1 @ [[], ''Building file mapping...'']"
    show ?thesis
    proof (cases "build_filename_mapping os fs1 dry_run")
      case (Inl e)
      with c o1 n1 show ?thesis by (simp add: main_def run_console_def Let_def)
    next
      case (Inr p)
      obtain mappings filename_map where p: "p = (mappings, filename_map)" by (cases p)
      let ?out3 = "?out2 @ [''  Found '' @ show_nat (length mappings)
                            @ '' files to migrate'' @ [CHR 0x0A]]"
      obtain r fs3 out3 where
        m: "migrate_all os dry_run filename_map mappings fs1 ?out3 [] = (r, fs3, out3)"
        by (cases "migrate_all os dry_run filename_map mappings fs1 ?out3 []")
      from migrate_all_console [of os dry_run filename_map mappings fs1 ?out3 "[]"]
      obtain r3 where
        "snd (snd (migrate_all os dry_run filename_map mappings fs1 ?out3 [])) = ?out3 @ r3"
        by blast
      then have o3: "out3 = ?out3 @ r3" by (simp only: m snd_conv)
      show ?thesis
      proof (cases r)
        case (Inl e)
        with c o1 n1 Inr p m o3 show ?thesis
          by (simp add: main_def run_console_def Let_def)
      next
        case (Inr ws)
        obtain e4 fs4 where w: "write_mapping_file os mappings dry_run fs3 = (e4, fs4)"
          by (cases "write_mapping_file os mappings dry_run fs3")
        from c o1 n1 \<open>build_filename_mapping os fs1 dry_run = Inr p\<close> p m o3 Inr w
        show ?thesis
          by (cases e4) (simp_all add: main_def run_console_def Let_def)
      qed
    qed
  qed
qed

text \<open>
  C9, as the code has it: with the dry-run flag the run leaves the file system as it
  found it, whatever the environment does on \<open>mkdir\<close> and \<open>write_text\<close>: no directory is
  created, no file written, no mapping file produced.  Its report on the console is not
  that of an execute run: it starts with the banner \<open>=== DRY RUN MODE ===\<close>, where an
  execute run starts with \<open>=== Doc Migration Script ===\<close>.
\<close>

theorem dry_run_leaves_file_system:
  "run_fs (main os True fs) = fs
   \<and> take 1 (run_console (main os True fs)) = [''=== DRY RUN MODE ==='' @ [CHR 0x0A]]
   \<and> take 1 (run_console (main os False fs)) = [''=== Doc Migration Script ==='' @ [CHR 0x0A]]"
proof (intro conjI)
  show "run_fs (main os True fs) = fs" by (rule main_dry_fs)
  from main_console_start [of os True fs]
  show "take 1 (run_console (main os True fs)) = [''=== DRY RUN MODE ==='' @ [CHR 0x0A]]"
    by auto
  from main_console_start [of os False fs]
  show "take 1 (run_console (main os False fs)) = [''=== Doc Migration Script ==='' @ [CHR 0x0A]]"
    by auto
qed

text \<open>
  C9 as stated fails on two repositories with one file each: the console of the dry run
  differs from the console of the execute run, which changes the file system.
\<close>

theorem dry_run_console_differs:
  "run_console (main mem_os True fs_two_repos) \<noteq> run_console (main mem_os False fs_two_repos)
   \<and> run_fs (main mem_os True fs_two_repos) = fs_two_repos
   \<and> run_fs (main mem_os False fs_two_repos) \<noteq> fs_two_repos"
  by code_simp

section \<open>Properties of the reference rewriter\<close>

lemma strip_parent_segments_rest:
  "\<not> starts_with ''../'' rest \<Longrightarrow> strip_parent_segments rest = rest"
  by (cases rest rule: strip_parent_segments.cases) auto

lemma strip_parent_segments_replicate:
  "\<not> starts_with ''../'' rest \<Longrightarrow>
   strip_parent_segments (concat (replicate n ''../'') @ rest) = rest"
  by (induction n) (simp_all add: strip_parent_segments_rest)

lemma known_repo_first_char:
  "list_ex (\<lambda>r. starts_with (r @ ''/'') (c # s)) known_repos \<Longrightarrow> c \<in> set ''fsd''"
  by (auto simp: known_repos_def)

lemma workspace_first_char: "starts_with workspace_str (c # s) \<Longrightarrow> c = CHR ''/''"
  by (simp add: workspace_str_def path_str_def WORKSPACE_def)

lemma normalize_code_reference_parent:
  assumes "\<not> starts_with ''../'' rest"
  shows "normalize_code_reference (concat (replicate (Suc n) ''../'') @ rest) origin
         = origin @ ''/'' @ rest"
proof -
  let ?ref = "concat (replicate (Suc n) ''../'') @ rest"
  have r: "?ref = CHR ''.'' # CHR ''.'' # CHR ''/'' # concat (replicate n ''../'') @ rest"
    by simp
  have k: "\<not> list_ex (\<lambda>r. starts_with (r @ ''/'') ?ref) known_repos"
    unfolding r using known_repo_first_char by fastforce
  have w: "\<not> starts_with workspace_str ?ref"
    unfolding r using workspace_first_char by fastforce
  have d: "starts_with ''..'' ?ref" by simp
  have s: "strip_parent_segments ?ref = rest"
    using assms by (rule strip_parent_segments_replicate)
  show ?thesis
    unfolding normalize_code_reference_def
    by (simp only: k w d s if_True if_False)
qed

text \<open>
  C5, as the code has it.  A reference that starts with a known repository name and a
  separator is left unchanged, whatever the originating repository.  A reference that
  starts with one or more \<open>../\<close> loses all of them and gets the originating repository
  before it.  A reference with a separator and a recognized code extension that starts
  with neither a known repository name and a separator, nor the path of the workspace,
  nor a dot gets the originating repository before it.  A reference that starts with a
  dot but not with two is left unchanged.
\<close>

theorem normalize_code_reference_rules:
  "(list_ex (\<lambda>r. starts_with (r @ ''/'') ref) known_repos
      \<longrightarrow> normalize_code_reference ref origin = ref)
   \<and> (\<not> starts_with ''../'' rest
      \<longrightarrow> normalize_code_reference (concat (replicate (Suc n) ''../'') @ rest) origin
          = origin @ ''/'' @ rest)
   \<and> (CHR ''/'' \<in> set ref \<and> splitext_ext ref \<in> set CODE_EXTENSIONS
       \<and> \<not> starts_with ''.'' ref
       \<and> \<not> list_ex (\<lambda>r. starts_with (r @ ''/'') ref) known_repos
       \<and> \<not> starts_with workspace_str ref
      \<longrightarrow> normalize_code_reference ref origin = origin @ ''/'' @ ref)
   \<and> (starts_with ''.'' ref \<and> \<not> starts_with ''..'' ref
      \<longrightarrow> normalize_code_reference ref origin = ref)"
proof (intro conjI impI)
  assume "list_ex (\<lambda>r. starts_with (r @ ''/'') ref) known_repos"
  then show "normalize_code_reference ref origin = ref"
    by (simp add: normalize_code_reference_def)
next
  assume "\<not> starts_with ''../'' rest"
  then show "normalize_code_reference (concat (replicate (Suc n) ''../'') @ rest) origin
             = origin @ ''/'' @ rest"
    by (rule normalize_code_reference_parent)
next
  assume a: "CHR ''/'' \<in> set ref \<and> splitext_ext ref \<in> set CODE_EXTENSIONS
       \<and> \<not> starts_with ''.'' ref
       \<and> \<not> list_ex (\<lambda>r. starts_with (r @ ''/'') ref) known_repos
       \<and> \<not> starts_with workspace_str ref"
  have "\<not> starts_with ''..'' ref"
    using a by (cases ref) auto
  with a show "normalize_code_reference ref origin = origin @ ''/'' @ ref"
    by (simp add: normalize_code_reference_def)
next
  assume d: "starts_with ''.'' ref \<and> \<not> starts_with ''..'' ref"
  then obtain s where r: "ref = CHR ''.'' # s" by (cases ref) auto
  have k: "\<not> list_ex (\<lambda>r. starts_with (r @ ''/'') ref) known_repos"
    unfolding r using known_repo_first_char by fastforce
  have w: "\<not> starts_with workspace_str ref"
    unfolding r using workspace_first_char by fastforce
  from d k w show "normalize_code_reference ref origin = ref"
    by (simp add: normalize_code_reference_def)
qed

text \<open>The theorem at the three references of the specification and at a reference that
  starts with a dot.\<close>

theorem normalize_code_reference_rules_witness:
  "normalize_code_reference ''sdk-kotlin/src/Main.kt'' ''flovyn-server'' = ''sdk-kotlin/src/Main.kt''
   \<and> normalize_code_reference ''../../src/lib.rs'' ''sdk-rust'' = ''sdk-rust/src/lib.rs''
   \<and> normalize_code_reference ''src/handler.rs'' ''flovyn-server'' = ''flovyn-server/src/handler.rs''
   \<and> normalize_code_reference ''.github/workflows/ci.yml'' ''flovyn-server''
       = ''.github/workflows/ci.yml''"
proof -
  have a: "list_ex (\<lambda>r. starts_with (r @ ''/'') ''sdk-kotlin/src/Main.kt'') known_repos"
    by code_simp
  have b: "\<not> starts_with ''../'' ''src/lib.rs''" by simp
  have c: "CHR ''/'' \<in> set ''src/handler.rs'' \<and> splitext_ext ''src/handler.rs'' \<in> set CODE_EXTENSIONS
       \<and> \<not> starts_with ''.'' ''src/handler.rs''
       \<and> \<not> list_ex (\<lambda>r. starts_with (r @ ''/'') ''src/handler.rs'') known_repos
       \<and> \<not> starts_with workspace_str ''src/handler.rs''"
    by code_simp
  have d: "starts_with ''.'' ''.github/workflows/ci.yml''
       \<and> \<not> starts_with ''..'' ''.github/workflows/ci.yml''" by simp
  have e1: "''../../src/lib.rs'' = concat (replicate (Suc 1) ''../'') @ ''src/lib.rs''" by simp
  have e2: "''sdk-rust/src/lib.rs'' = ''sdk-rust'' @ ''/'' @ ''src/lib.rs''" by simp
  have e3: "''flovyn-server/src/handler.rs'' = ''flovyn-server'' @ ''/'' @ ''src/handler.rs''" by simp
  from normalize_code_reference_rules [of "''sdk-kotlin/src/Main.kt''" "''flovyn-server''"] a
  have 1: "normalize_code_reference ''sdk-kotlin/src/Main.kt'' ''flovyn-server'' = ''sdk-kotlin/src/Main.kt''"
    by blast
  from normalize_code_reference_rules [of _ "''sdk-rust''" "''src/lib.rs''" 1] b
  have 2: "normalize_code_reference ''../../src/lib.rs'' ''sdk-rust'' = ''sdk-rust/src/lib.rs''"
    unfolding e1 e2 by blast
  from normalize_code_reference_rules [of "''src/handler.rs''" "''flovyn-server''"] c
  have 3: "normalize_code_reference ''src/handler.rs'' ''flovyn-server'' = ''flovyn-server/src/handler.rs''"
    unfolding e3 by blast
  from normalize_code_reference_rules [of "''.github/workflows/ci.yml''" "''flovyn-server''"] d
  have 4: "normalize_code_reference ''.github/workflows/ci.yml'' ''flovyn-server''
           = ''.github/workflows/ci.yml''"
    by blast
  from 1 2 3 4 show ?thesis by (intro conjI)
qed

text \<open>
  C5 as stated fails for an absolute path below the workspace: it has a separator and a
  recognized extension and starts with no dot, and the path of the workspace is cut off
  instead of the repository being put before it.  It fails as well for a reference that
  starts with a dot that is no traversal marker: \<open>.github/workflows/ci.yml\<close> has a
  separator and a recognized extension and starts with neither \<open>./\<close> nor \<open>../\<close>, and it
  is left without the repository.
\<close>

theorem normalize_code_reference_workspace_path:
  "CHR ''/'' \<in> set ''/home/ubuntu/workspaces/flovyn/src/app.ts''
   \<and> splitext_ext ''/home/ubuntu/workspaces/flovyn/src/app.ts'' \<in> set CODE_EXTENSIONS
   \<and> \<not> starts_with ''.'' ''/home/ubuntu/workspaces/flovyn/src/app.ts''
   \<and> normalize_code_reference ''/home/ubuntu/workspaces/flovyn/src/app.ts'' ''flovyn-app''
       = ''src/app.ts''
   \<and> normalize_code_reference ''/home/ubuntu/workspaces/flovyn/src/app.ts'' ''flovyn-app''
       \<noteq> ''flovyn-app'' @ ''/'' @ ''/home/ubuntu/workspaces/flovyn/src/app.ts''
   \<and> CHR ''/'' \<in> set ''.github/workflows/ci.yml''
   \<and> splitext_ext ''.github/workflows/ci.yml'' \<in> set CODE_EXTENSIONS
   \<and> \<not> starts_with ''./'' ''.github/workflows/ci.yml''
   \<and> \<not> starts_with ''../'' ''.github/workflows/ci.yml''
   \<and> normalize_code_reference ''.github/workflows/ci.yml'' ''flovyn-server''
       = ''.github/workflows/ci.yml''
   \<and> normalize_code_reference ''.github/workflows/ci.yml'' ''flovyn-server''
       \<noteq> ''flovyn-server'' @ ''/'' @ ''.github/workflows/ci.yml''"
  by code_simp

text \<open>
  C3 fails on the code: the inline reference \<open>src/handler.rs:42\<close> matches the pattern, and
  its extension without the line number is \<open>.rs\<close>, but \<open>normalize_code_reference\<close> takes
  the extension of the whole reference, \<open>.rs:42\<close>, and leaves the reference without the
  repository; the same reference without a line number gets it, and so does a reference
  with a line number that starts with \<open>../\<close>.
\<close>

theorem line_number_reference_not_prefixed:
  "code_ref_group ([CHR 0x60] @ ''src/handler.rs:42'' @ [CHR 0x60]) = Some ''src/handler.rs:42''
   \<and> splitext_ext (before_colon ''src/handler.rs:42'') \<in> set CODE_EXTENSIONS
   \<and> replace_code_ref ''flovyn-server'' ''src/handler.rs:42''
       = [CHR 0x60] @ ''src/handler.rs:42'' @ [CHR 0x60]
   \<and> replace_code_ref ''flovyn-server'' ''src/handler.rs''
       = [CHR 0x60] @ ''flovyn-server/src/handler.rs'' @ [CHR 0x60]
   \<and> replace_code_ref ''sdk-rust'' ''../src/lib.rs:10''
       = [CHR 0x60] @ ''sdk-rust/src/lib.rs:10'' @ [CHR 0x60]
   \<and> fst (normalize_links_in_content
            (''See '' @ [CHR 0x60] @ ''src/handler.rs:42'' @ [CHR 0x60]) Map.empty ''flovyn-server'')
       = ''See '' @ [CHR 0x60] @ ''src/handler.rs:42'' @ [CHR 0x60]"
  by code_simp

text \<open>
  C4: the link of the specification is rewritten as the claim says.  The claim fails on
  the code for a target that holds the filename a second time: \<open>str.replace\<close> rewrites
  every occurrence, not the last path component only.
\<close>

theorem doc_link_replaces_every_occurrence:
  "fst (normalize_links_in_content ''[See design](../.dev/docs/design/001-foo.md)''
         foo_table ''flovyn-server'')
     = ''[See design](dev/docs/design/20240102_foo.md)''
   \<and> replace_md_link foo_table ''flovyn-server'' ''See design''
         ''../.dev/docs/design/old-001-foo.md/001-foo.md''
     = ''[See design](dev/docs/design/old-20240102_foo.md/20240102_foo.md)''"
  by code_simp





text \<open>The pass over metadata lines takes the label of a link behind \<open>**Design:**\<close> for a
  path and drops the brackets, also when the target of the link is a web address.\<close>

lemma metadata_pass_on_url_link:
  "fst (normalize_links_in_content ''**Design:** [design.md](https://example.com/design.md)''
         Map.empty ''flovyn-server'')
     = ''**Design:** design.md(https://example.com/design.md)''"
  by code_simp

end
